theory Spec2Isabelle
  imports Main
begin

section \<open>Python strings\<close>

text \<open>
  A Python \<open>str\<close> is modelled as a \<open>string\<close>: a list of 8-bit characters, each read as the
  code point of the same number (the Latin-1 range, which holds every literal of the
  source). \<open>isspace\<close>, \<open>strip\<close> and \<open>lower\<close> are the built-in \<open>str\<close> methods on that range:
  the white space of \<open>str.isspace\<close> is 9-13, 28-32, 133 and 160; \<open>str.lower\<close> moves
  A-Z, 192-214 and 216-222 up by 32 (215 is the multiplication sign).
\<close>

definition isspace :: "char \<Rightarrow> bool" where
  "isspace c =
     (let n = (of_char c :: nat)
      in (9 \<le> n \<and> n \<le> 13) \<or> (28 \<le> n \<and> n \<le> 32) \<or> n = 133 \<or> n = 160)"

definition strip :: "string \<Rightarrow> string" where
  "strip s = rev (dropWhile isspace (rev (dropWhile isspace s)))"

definition lower_char :: "char \<Rightarrow> char" where
  "lower_char c =
     (let n = (of_char c :: nat)
      in if (65 \<le> n \<and> n \<le> 90) \<or> (192 \<le> n \<and> n \<le> 214) \<or> (216 \<le> n \<and> n \<le> 222)
         then char_of (n + 32) else c)"

definition lower :: "string \<Rightarrow> string" where
  "lower s = map lower_char s"

text \<open>\<open>sep.join(xs)\<close>.\<close>

fun join :: "string \<Rightarrow> string list \<Rightarrow> string" where
  "join sep [] = []"
| "join sep [x] = x"
| "join sep (x # y # ys) = x @ sep @ join sep (y # ys)"

text \<open>\<open>d.get(k, default)\<close> on a dictionary kept as an association list.\<close>

definition dict_get :: "('k \<times> 'v) list \<Rightarrow> 'k \<Rightarrow> 'v \<Rightarrow> 'v" where
  "dict_get d k dflt = (case map_of d k of None \<Rightarrow> dflt | Some v \<Rightarrow> v)"

section \<open>The data model of \<open>rag_logic.py\<close>\<close>

text \<open>The shared state of the graph, \<open>class AgentState(TypedDict)\<close>.\<close>

record AgentState =
  query :: string
  decision :: string
  result :: string
  documents :: "string list"

text \<open>
  An exception is kept by its message, \<open>str(e)\<close>. Only instances of \<open>Exception\<close> are
  modelled: they are what the collaborators raise and what \<open>except Exception\<close> catches.
\<close>

datatype exn = Exception string

fun str :: "exn \<Rightarrow> string" where
  "str (Exception m) = m"

datatype message = SystemMessage string | HumanMessage string

record ChatOpenAI =
  model :: string
  temperature :: nat

definition llm :: ChatOpenAI where
  "llm = \<lparr>model = ''gpt-4o-mini'', temperature = 0\<rparr>"

record Document =
  page_content :: string
  metadata :: "(string \<times> string) list"

text \<open>
  One result of the search provider is a dictionary of strings; its response is a
  dictionary of which the code reads the key \<open>results\<close> only, a list of such results.
\<close>

type_synonym search_result = "(string \<times> string) list"
type_synonym search_response = "(string \<times> search_result list) list"

text \<open>
  The collaborators of the module are parameters of the model: the language model
  (\<open>llm.invoke\<close>), the search provider (\<open>tavily_client.search\<close>), the passages held by
  the vector store and the embedding of a query, given as the distance it induces to
  every stored passage. Each call returns a value or raises.
\<close>

record env =
  llm_invoke :: "ChatOpenAI \<Rightarrow> message list \<Rightarrow> exn + string"
  tavily_search :: "string \<Rightarrow> string \<Rightarrow> nat \<Rightarrow> exn + search_response"
  vectorstore :: "Document list"
  embed_query :: "string \<Rightarrow> exn + (Document \<Rightarrow> nat)"

text \<open>The calls a node makes to the collaborators, in the order it makes them.\<close>

datatype call =
    LLM_invoke ChatOpenAI "message list"
  | Tavily_search string string nat
  | Retriever_invoke nat string

text \<open>
  Modelled from the spec: the similarity search of the document store (the vector store
  is a library object, \<open>Chroma\<close>, whose code is not part of the repository). Section 4.1:
  \<open>search(query, k)\<close> returns up to \<open>k\<close> passages ranked by embedding similarity, most
  similar first; a failure of the embedding provider propagates.
\<close>

definition similarity_search :: "env \<Rightarrow> string \<Rightarrow> nat \<Rightarrow> exn + Document list" where
  "similarity_search w q k =
     (case embed_query w q of
        Inl e \<Rightarrow> Inl e
      | Inr dist \<Rightarrow> Inr (take k (sort_key dist (vectorstore w))))"

text \<open>
  \<open>Command(goto=..., update=...)\<close>: the node to run next, or \<open>END\<close>, and the keys of the
  state to overwrite.
\<close>

datatype target = Goto string | END

datatype field_update =
    Set_decision string
  | Set_result string
  | Set_documents "string list"

record Command =
  goto :: target
  update :: "field_update list"

fun apply_field :: "AgentState \<Rightarrow> field_update \<Rightarrow> AgentState" where
  "apply_field s (Set_decision d) = s\<lparr>decision := d\<rparr>"
| "apply_field s (Set_result r) = s\<lparr>result := r\<rparr>"
| "apply_field s (Set_documents ds) = s\<lparr>documents := ds\<rparr>"

definition apply_update :: "AgentState \<Rightarrow> field_update list \<Rightarrow> AgentState" where
  "apply_update s us = foldl apply_field s us"

section \<open>The nodes\<close>

definition system_prompt :: string where
  "system_prompt =
     ''Sei un router intelligente. Analizza la domanda dell'utente e decidi quale strumento usare:\<newline>''
   @ ''\<newline>''
   @ ''- 'rag_search': se la domanda riguarda Python, FastAPI, LangGraph, ChromaDB, machine learning, o concetti di programmazione\<newline>''
   @ ''- 'web_search': se la domanda riguarda notizie attuali, eventi recenti, informazioni generali non tecniche\<newline>''
   @ ''\<newline>''
   @ ''Rispondi SOLO con 'rag_search' o 'web_search', senza altre parole.''"

definition router_messages :: "string \<Rightarrow> message list" where
  "router_messages q = [SystemMessage system_prompt, HumanMessage (''Domanda: '' @ q)]"

definition router_node :: "env \<Rightarrow> AgentState \<Rightarrow> call list \<times> (exn + Command)" where
  "router_node w state =
     (let messages = router_messages (query state)
      in case llm_invoke w llm messages of
           Inl e \<Rightarrow> ([LLM_invoke llm messages], Inl e)
         | Inr content \<Rightarrow>
             (let decision0 = lower (strip content);
                  decision1 = (if decision0 \<notin> set [''rag_search'', ''web_search'']
                               then ''rag_search'' else decision0)
              in ([LLM_invoke llm messages],
                  Inr \<lparr>goto = Goto decision1, update = [Set_decision decision1]\<rparr>)))"

definition rag_prompt :: "string \<Rightarrow> string \<Rightarrow> string" where
  "rag_prompt documents_content q =
     ''Usa i seguenti documenti per rispondere alla domanda. \<newline>''
   @ ''Se la risposta non '' @ [CHR 0xE8] @ '' nei documenti, dillo chiaramente.\<newline>''
   @ ''\<newline>''
   @ ''DOCUMENTI:\<newline>''
   @ documents_content @ ''\<newline>''
   @ ''\<newline>''
   @ ''DOMANDA: '' @ q @ ''\<newline>''
   @ ''\<newline>''
   @ ''RISPOSTA:''"

definition rag_messages :: "Document list \<Rightarrow> string \<Rightarrow> message list" where
  "rag_messages relevant_docs q =
     (let documents_content = join ''\<newline>\<newline>'' (map page_content relevant_docs)
      in [SystemMessage ''Sei un assistente AI che risponde basandosi solo sui documenti forniti.'',
          HumanMessage (rag_prompt documents_content q)])"

text \<open>\<open>[doc.metadata.get("source", "unknown") for doc in relevant_docs]\<close>.\<close>

definition doc_sources :: "Document list \<Rightarrow> string list" where
  "doc_sources relevant_docs =
     map (\<lambda>doc. dict_get (metadata doc) ''source'' ''unknown'') relevant_docs"

definition rag_search_node :: "env \<Rightarrow> AgentState \<Rightarrow> call list \<times> (exn + Command)" where
  "rag_search_node w state =
     (let q = query state
      in case similarity_search w q 3 of
           Inl e \<Rightarrow> ([Retriever_invoke 3 q], Inl e)
         | Inr relevant_docs \<Rightarrow>
             (let messages = rag_messages relevant_docs q;
                  calls = [Retriever_invoke 3 q, LLM_invoke llm messages]
              in case llm_invoke w llm messages of
                   Inl e \<Rightarrow> (calls, Inl e)
                 | Inr content \<Rightarrow>
                     (calls,
                      Inr \<lparr>goto = END,
                           update = [Set_result content,
                                     Set_documents (doc_sources relevant_docs)]\<rparr>)))"

definition result_block :: "search_result \<Rightarrow> string" where
  "result_block r = ''Fonte: '' @ dict_get r ''url'' ''N/A'' @ ''\<newline>'' @ dict_get r ''content'' ''''"

definition web_prompt :: "string \<Rightarrow> string \<Rightarrow> string" where
  "web_prompt results_content q =
     ''Usa i seguenti risultati di ricerca web per rispondere alla domanda.\<newline>''
   @ ''\<newline>''
   @ ''RISULTATI WEB:\<newline>''
   @ results_content @ ''\<newline>''
   @ ''\<newline>''
   @ ''DOMANDA: '' @ q @ ''\<newline>''
   @ ''\<newline>''
   @ ''RISPOSTA (sintetizza le informazioni in modo chiaro):''"

definition web_messages :: "search_response \<Rightarrow> string \<Rightarrow> message list" where
  "web_messages search_results q =
     (let results_content =
            join ''\<newline>\<newline>'' (map result_block (dict_get search_results ''results'' []))
      in [SystemMessage ''Sei un assistente AI che sintetizza informazioni da ricerche web.'',
          HumanMessage (web_prompt results_content q)])"

text \<open>\<open>[result.get('url', 'N/A') for result in search_results.get('results', [])]\<close>.\<close>

definition result_urls :: "search_response \<Rightarrow> string list" where
  "result_urls search_results =
     map (\<lambda>r. dict_get r ''url'' ''N/A'') (dict_get search_results ''results'' [])"

text \<open>The \<open>except Exception as e\<close> branch of \<open>web_search_node\<close>.\<close>

definition web_fallback :: "exn \<Rightarrow> Command" where
  "web_fallback e =
     (let error_message = ''Errore durante la ricerca web: '' @ str e
      in \<lparr>goto = END, update = [Set_result error_message, Set_documents []]\<rparr>)"

text \<open>
  The whole body of \<open>web_search_node\<close> is inside the \<open>try\<close>: an exception of the search
  call and an exception of the language-model call both end in the fallback.
\<close>

definition web_search_node :: "env \<Rightarrow> AgentState \<Rightarrow> call list \<times> (exn + Command)" where
  "web_search_node w state =
     (let q = query state
      in case tavily_search w q ''basic'' 3 of
           Inl e \<Rightarrow> ([Tavily_search q ''basic'' 3], Inr (web_fallback e))
         | Inr search_results \<Rightarrow>
             (let messages = web_messages search_results q;
                  calls = [Tavily_search q ''basic'' 3, LLM_invoke llm messages]
              in case llm_invoke w llm messages of
                   Inl e \<Rightarrow> (calls, Inr (web_fallback e))
                 | Inr content \<Rightarrow>
                     (calls,
                      Inr \<lparr>goto = END,
                           update = [Set_result content,
                                     Set_documents (result_urls search_results)]\<rparr>)))"

section \<open>The graph and its execution\<close>

text \<open>
  \<open>build_agent_graph\<close> registers the three nodes under their names and adds the one edge
  from \<open>START\<close> to the router; every other transition is the \<open>goto\<close> of a \<open>Command\<close>.
\<close>

type_synonym node_fn = "env \<Rightarrow> AgentState \<Rightarrow> call list \<times> (exn + Command)"

record StateGraph =
  nodes :: "(string \<times> node_fn) list"
  start_edge :: string

definition build_agent_graph :: StateGraph where
  "build_agent_graph =
     \<lparr>nodes = [(''router'', router_node),
               (''rag_search'', rag_search_node),
               (''web_search'', web_search_node)],
      start_edge = ''router''\<rparr>"

text \<open>
  The execution of the compiled graph, \<open>graph.invoke\<close>, is the library's: it runs the node
  an edge or a \<open>goto\<close> names, overwrites the keys of the command's update in the state and
  follows the command's \<open>goto\<close> until \<open>END\<close>; an exception of a node ends the run, and so
  does the recursion limit of the library (25 steps by default), which makes the loop
  total. A run is recorded with the nodes it entered, the steps it completed (node,
  update, state after the update), the calls to the collaborators and its outcome.
\<close>

type_synonym step = "string \<times> field_update list \<times> AgentState"

record run =
  visited :: "string list"
  steps :: "step list"
  calls :: "call list"
  outcome :: "exn + AgentState"

definition recursion_limit :: nat where
  "recursion_limit = 25"

fun run_nodes :: "nat \<Rightarrow> (string \<times> node_fn) list \<Rightarrow> env \<Rightarrow> string \<Rightarrow> AgentState \<Rightarrow> run" where
  "run_nodes 0 ns w name s =
     \<lparr>visited = [], steps = [], calls = [],
      outcome = Inl (Exception ''Recursion limit reached without hitting a stop condition'')\<rparr>"
| "run_nodes (Suc n) ns w name s =
     (case map_of ns name of
        None \<Rightarrow>
          \<lparr>visited = [], steps = [], calls = [],
           outcome = Inl (Exception (''unknown node: '' @ name))\<rparr>
      | Some f \<Rightarrow>
          (case f w s of
             (cs, Inl e) \<Rightarrow> \<lparr>visited = [name], steps = [], calls = cs, outcome = Inl e\<rparr>
           | (cs, Inr cmd) \<Rightarrow>
               (let s' = apply_update s (update cmd)
                in case goto cmd of
                     END \<Rightarrow>
                       \<lparr>visited = [name], steps = [(name, update cmd, s')], calls = cs,
                        outcome = Inr s'\<rparr>
                   | Goto nxt \<Rightarrow>
                       (let r = run_nodes n ns w nxt s'
                        in \<lparr>visited = name # visited r,
                            steps = (name, update cmd, s') # steps r,
                            calls = cs @ calls r,
                            outcome = outcome r\<rparr>))))"

definition invoke :: "StateGraph \<Rightarrow> env \<Rightarrow> AgentState \<Rightarrow> run" where
  "invoke graph w s = run_nodes recursion_limit (nodes graph) w (start_edge graph) s"

section \<open>\<open>run_agent\<close>\<close>

text \<open>The dictionary \<open>run_agent\<close> returns.\<close>

record response =
  r_query :: string
  r_decision :: string
  r_result :: string
  r_sources :: "string list"

definition initial_state :: "string \<Rightarrow> AgentState" where
  "initial_state q = \<lparr>query = q, decision = '''', result = '''', documents = []\<rparr>"

definition run_graph :: "env \<Rightarrow> string \<Rightarrow> run" where
  "run_graph w q = invoke build_agent_graph w (initial_state q)"

definition run_agent :: "env \<Rightarrow> string \<Rightarrow> exn + response" where
  "run_agent w q =
     (case outcome (run_graph w q) of
        Inl e \<Rightarrow> Inl e
      | Inr final_state \<Rightarrow>
          Inr \<lparr>r_query = query final_state,
               r_decision = decision final_state,
               r_result = result final_state,
               r_sources = documents final_state\<rparr>)"

section \<open>The endpoint \<open>POST /chat\<close> of \<open>main.py\<close>\<close>

record ChatRequest =
  req_query :: string

record ChatResponse = response +
  status :: string

text \<open>
  The framework validates the body against \<open>ChatRequest\<close> (\<open>min_length=1\<close>,
  \<open>max_length=1000\<close>) before the handler runs and answers 422 itself when it fails.
\<close>

datatype http_response =
    Response200 ChatResponse
  | HTTPException nat string
  | RequestValidationError

definition valid_ChatRequest :: "ChatRequest \<Rightarrow> bool" where
  "valid_ChatRequest request = (1 \<le> length (req_query request) \<and> length (req_query request) \<le> 1000)"

definition status_code :: "http_response \<Rightarrow> nat" where
  "status_code r =
     (case r of Response200 _ \<Rightarrow> 200 | HTTPException c _ \<Rightarrow> c | RequestValidationError \<Rightarrow> 422)"

definition chat :: "env \<Rightarrow> ChatRequest \<Rightarrow> http_response" where
  "chat w request =
     (if \<not> valid_ChatRequest request then RequestValidationError
      else case run_agent w (req_query request) of
             Inr agent_response \<Rightarrow>
               Response200
                 \<lparr>r_query = r_query agent_response,
                  r_decision = r_decision agent_response,
                  r_result = r_result agent_response,
                  r_sources = r_sources agent_response,
                  status = ''success''\<rparr>
           | Inl e \<Rightarrow> HTTPException 500 (''Errore interno del server: '' @ str e))"

section \<open>The sample store and concrete collaborators\<close>

text \<open>
  The five documents \<open>initialize_vector_store\<close> puts into the store (\<open>CHR 0xE8\<close>,
  \<open>CHR 0xC8\<close> and \<open>CHR 0xE0\<close> are the accented letters of the Italian text).
\<close>

definition sample_documents :: "Document list" where
  "sample_documents =
     [\<lparr>page_content =
          ''Python '' @ [CHR 0xE8] @ '' un linguaggio di programmazione ad alto livello, interpretato e general-purpose. ''
        @ [CHR 0xC8] @ '' noto per la sua sintassi chiara e leggibile, che enfatizza la leggibilit'' @ [CHR 0xE0] @ '' del codice.'',
        metadata = [(''source'', ''python_intro.txt'')]\<rparr>,
      \<lparr>page_content =
          ''FastAPI '' @ [CHR 0xE8] @ '' un framework web moderno e veloce per la creazione di API con Python 3.7+. ''
        @ [CHR 0xC8] @ '' basato su standard come OpenAPI e JSON Schema, e offre validazione automatica dei dati.'',
        metadata = [(''source'', ''fastapi_docs.txt'')]\<rparr>,
      \<lparr>page_content =
          ''LangGraph '' @ [CHR 0xE8] @ '' un framework per costruire agenti e applicazioni multi-agente con LLM. ''
        @ ''Permette di creare grafi stateful con cicli, condizioni e persistenza dello stato.'',
        metadata = [(''source'', ''langgraph_guide.txt'')]\<rparr>,
      \<lparr>page_content =
          ''Il machine learning '' @ [CHR 0xE8] @ '' un campo dell'intelligenza artificiale che si concentra sulla ''
        @ ''costruzione di sistemi che apprendono dai dati e migliorano le loro prestazioni nel tempo.'',
        metadata = [(''source'', ''ml_basics.txt'')]\<rparr>,
      \<lparr>page_content =
          ''ChromaDB '' @ [CHR 0xE8] @ '' un database vettoriale open-source progettato per applicazioni AI. ''
        @ ''Supporta embeddings e ricerca per similarit'' @ [CHR 0xE0] @ '', ideale per sistemi RAG.'',
        metadata = [(''source'', ''chroma_overview.txt'')]\<rparr>]"

text \<open>
  Collaborators to run the model on: a language model that answers the router's
  instruction with a fixed text and any other prompt with a fixed answer, or raises on
  the latter; a search provider with a fixed outcome; an embedding that ranks a passage
  by the length of its source label.
\<close>

definition fixed_llm :: "string \<Rightarrow> exn + string \<Rightarrow> ChatOpenAI \<Rightarrow> message list \<Rightarrow> exn + string" where
  "fixed_llm label answer cfg messages =
     (case messages of
        SystemMessage p # _ \<Rightarrow> if p = system_prompt then Inr label else answer
      | _ \<Rightarrow> answer)"

definition label_distance :: "Document \<Rightarrow> nat" where
  "label_distance doc = length (dict_get (metadata doc) ''source'' '''')"

definition fixed_env :: "string \<Rightarrow> exn + string \<Rightarrow> exn + search_response \<Rightarrow> Document list \<Rightarrow> env" where
  "fixed_env label answer found store =
     \<lparr>llm_invoke = fixed_llm label answer,
      tavily_search = (\<lambda>q depth n. found),
      vectorstore = store,
      embed_query = (\<lambda>q. Inr label_distance)\<rparr>"

definition two_results :: search_response where
  "two_results =
     [(''query'', []),
      (''results'',
        [[(''title'', ''First''), (''url'', ''https://example.org/a''), (''content'', ''alpha'')],
         [(''title'', ''Second''), (''content'', ''beta'')]])]"

section \<open>The shape of a run\<close>

text \<open>
  Every sample document is shorter than the chunk size of 500 the text splitter is
  given, so the store holds the five documents whole.
\<close>

lemma sample_documents_fit_chunk:
  "map (\<lambda>doc. length (page_content doc)) sample_documents = [177, 174, 165, 174, 147]"
  by code_simp

lemma run_nodes_step:
  assumes "0 < n"
  shows "run_nodes n ns w name s =
     (case map_of ns name of
        None \<Rightarrow>
          \<lparr>visited = [], steps = [], calls = [],
           outcome = Inl (Exception (''unknown node: '' @ name))\<rparr>
      | Some f \<Rightarrow>
          (case f w s of
             (cs, Inl e) \<Rightarrow> \<lparr>visited = [name], steps = [], calls = cs, outcome = Inl e\<rparr>
           | (cs, Inr cmd) \<Rightarrow>
               (let s' = apply_update s (update cmd)
                in case goto cmd of
                     END \<Rightarrow>
                       \<lparr>visited = [name], steps = [(name, update cmd, s')], calls = cs,
                        outcome = Inr s'\<rparr>
                   | Goto nxt \<Rightarrow>
                       (let r = run_nodes (n - 1) ns w nxt s'
                        in \<lparr>visited = name # visited r,
                            steps = (name, update cmd, s') # steps r,
                            calls = cs @ calls r,
                            outcome = outcome r\<rparr>))))"
  using assms by (cases n) (simp_all add: Let_def split: option.split sum.split target.split prod.split)

lemma nodes_lookup:
  "map_of (nodes build_agent_graph) ''router'' = Some router_node"
  "map_of (nodes build_agent_graph) ''rag_search'' = Some rag_search_node"
  "map_of (nodes build_agent_graph) ''web_search'' = Some web_search_node"
  by (simp_all add: build_agent_graph_def)

lemma start_edge_router: "start_edge build_agent_graph = ''router''"
  by (simp add: build_agent_graph_def)

lemma router_node_raises:
  assumes "llm_invoke w llm (router_messages (query s)) = Inl e"
  shows "router_node w s = ([LLM_invoke llm (router_messages (query s))], Inl e)"
  using assms by (simp add: router_node_def)

lemma router_node_returns:
  assumes "llm_invoke w llm (router_messages (query s)) = Inr c"
  shows "router_node w s =
           ([LLM_invoke llm (router_messages (query s))],
            Inr \<lparr>goto = Goto (if lower (strip c) = ''web_search'' then ''web_search'' else ''rag_search''),
                 update = [Set_decision (if lower (strip c) = ''web_search'' then ''web_search'' else ''rag_search'')]\<rparr>)"
  using assms by (simp add: router_node_def Let_def)

lemma rag_search_node_shape:
  "(\<exists>cs e. rag_search_node w s = (cs, Inl e)) \<or>
   (\<exists>cs a srcs. rag_search_node w s =
        (cs, Inr \<lparr>goto = END, update = [Set_result a, Set_documents srcs]\<rparr>))"
  by (simp add: rag_search_node_def Let_def split: sum.splits)

lemma web_search_node_shape:
  "\<exists>cs a srcs. web_search_node w s =
        (cs, Inr \<lparr>goto = END, update = [Set_result a, Set_documents srcs]\<rparr>)"
  by (simp add: web_search_node_def web_fallback_def Let_def split: sum.splits)

lemma run_graph_router_raises:
  assumes "llm_invoke w llm (router_messages q) = Inl e"
  shows "run_graph w q =
           \<lparr>visited = [''router''], steps = [],
            calls = [LLM_invoke llm (router_messages q)], outcome = Inl e\<rparr>"
  using assms
  by (simp add: run_graph_def invoke_def recursion_limit_def run_nodes_step nodes_lookup start_edge_router
      router_node_raises initial_state_def)

lemma run_graph_routed:
  assumes "llm_invoke w llm (router_messages q) = Inr c"
    and "d = (if lower (strip c) = ''web_search'' then ''web_search'' else ''rag_search'')"
    and "f = (if lower (strip c) = ''web_search'' then web_search_node else rag_search_node)"
    and "s1 = (initial_state q)\<lparr>decision := d\<rparr>"
  shows "run_graph w q =
           (case f w s1 of
              (cs, Inl e) \<Rightarrow>
                \<lparr>visited = [''router'', d], steps = [(''router'', [Set_decision d], s1)],
                 calls = LLM_invoke llm (router_messages q) # cs, outcome = Inl e\<rparr>
            | (cs, Inr cmd) \<Rightarrow>
                \<lparr>visited = [''router'', d],
                 steps = [(''router'', [Set_decision d], s1),
                          (d, update cmd, apply_update s1 (update cmd))],
                 calls = LLM_invoke llm (router_messages q) # cs,
                 outcome = Inr (apply_update s1 (update cmd))\<rparr>)"
proof (cases "lower (strip c) = ''web_search''")
  case True
  obtain cs a srcs where "web_search_node w s1 =
        (cs, Inr \<lparr>goto = END, update = [Set_result a, Set_documents srcs]\<rparr>)"
    using web_search_node_shape by blast
  with True assms show ?thesis
    by (simp add: run_graph_def invoke_def recursion_limit_def run_nodes_step nodes_lookup start_edge_router
      router_node_returns initial_state_def apply_update_def Let_def)
next
  case False
  from rag_search_node_shape [of w s1] False assms show ?thesis
    by (auto simp add: run_graph_def invoke_def recursion_limit_def run_nodes_step nodes_lookup start_edge_router
      router_node_returns initial_state_def apply_update_def Let_def)
qed

lemma web_search_node_raises:
  assumes "tavily_search w (query s) ''basic'' 3 = Inl e"
  shows "web_search_node w s = ([Tavily_search (query s) ''basic'' 3], Inr (web_fallback e))"
  using assms by (simp add: web_search_node_def)

lemma web_search_node_found:
  assumes "tavily_search w (query s) ''basic'' 3 = Inr sr"
  shows "web_search_node w s =
           ([Tavily_search (query s) ''basic'' 3, LLM_invoke llm (web_messages sr (query s))],
            Inr (case llm_invoke w llm (web_messages sr (query s)) of
                   Inl e \<Rightarrow> web_fallback e
                 | Inr content \<Rightarrow>
                     \<lparr>goto = END, update = [Set_result content, Set_documents (result_urls sr)]\<rparr>))"
  using assms by (simp add: web_search_node_def Let_def split: sum.split)

lemma apply_update_answer:
  "apply_update s [Set_result a, Set_documents srcs] = s\<lparr>result := a, documents := srcs\<rparr>"
  by (simp add: apply_update_def)

lemma run_graph_cases:
  fixes w q
  defines "L \<equiv> LLM_invoke llm (router_messages q)"
  shows
  "(\<exists>e. llm_invoke w llm (router_messages q) = Inl e
        \<and> run_graph w q = \<lparr>visited = [''router''], steps = [], calls = [L], outcome = Inl e\<rparr>)
   \<or> (\<exists>c s1 cs e.
         llm_invoke w llm (router_messages q) = Inr c
       \<and> lower (strip c) \<noteq> ''web_search''
       \<and> s1 = (initial_state q)\<lparr>decision := ''rag_search''\<rparr>
       \<and> rag_search_node w s1 = (cs, Inl e)
       \<and> run_graph w q =
           \<lparr>visited = [''router'', ''rag_search''],
            steps = [(''router'', [Set_decision ''rag_search''], s1)],
            calls = L # cs, outcome = Inl e\<rparr>)
   \<or> (\<exists>c d s1 cs a srcs.
         llm_invoke w llm (router_messages q) = Inr c
       \<and> d = (if lower (strip c) = ''web_search'' then ''web_search'' else ''rag_search'')
       \<and> s1 = (initial_state q)\<lparr>decision := d\<rparr>
       \<and> (if lower (strip c) = ''web_search'' then web_search_node else rag_search_node) w s1 =
           (cs, Inr \<lparr>goto = END, update = [Set_result a, Set_documents srcs]\<rparr>)
       \<and> run_graph w q =
           \<lparr>visited = [''router'', d],
            steps = [(''router'', [Set_decision d], s1),
                     (d, [Set_result a, Set_documents srcs], s1\<lparr>result := a, documents := srcs\<rparr>)],
            calls = L # cs,
            outcome = Inr (s1\<lparr>result := a, documents := srcs\<rparr>)\<rparr>)"
proof (cases "llm_invoke w llm (router_messages q)")
  case (Inl e)
  then show ?thesis
    using run_graph_router_raises [of w q e] by (simp add: L_def)
next
  case (Inr c)
  define d where "d = (if lower (strip c) = ''web_search'' then ''web_search'' else ''rag_search'')"
  define f where "f = (if lower (strip c) = ''web_search'' then web_search_node else rag_search_node)"
  define s1 where "s1 = (initial_state q)\<lparr>decision := d\<rparr>"
  note run = run_graph_routed [OF Inr d_def f_def s1_def]
  show ?thesis
  proof (cases "lower (strip c) = ''web_search''")
    case True
    obtain cs a srcs where
      "web_search_node w s1 = (cs, Inr \<lparr>goto = END, update = [Set_result a, Set_documents srcs]\<rparr>)"
      using web_search_node_shape by blast
    with True Inr run show ?thesis
      by (simp add: d_def f_def s1_def L_def apply_update_answer)
  next
    case False
    from rag_search_node_shape [of w s1] show ?thesis
    proof (elim disjE exE)
      fix cs e
      assume "rag_search_node w s1 = (cs, Inl e)"
      with False Inr run show ?thesis
        by (simp add: d_def f_def s1_def L_def)
    next
      fix cs a srcs
      assume "rag_search_node w s1 =
                (cs, Inr \<lparr>goto = END, update = [Set_result a, Set_documents srcs]\<rparr>)"
      with False Inr run show ?thesis
        by (simp add: d_def f_def s1_def L_def apply_update_answer)
    qed
  qed
qed

lemma rag_search_node_returns:
  assumes "rag_search_node w s = (cs, Inr cmd)"
  shows "\<exists>dist content.
           embed_query w (query s) = Inr dist
         \<and> similarity_search w (query s) 3 = Inr (take 3 (sort_key dist (vectorstore w)))
         \<and> llm_invoke w llm (rag_messages (take 3 (sort_key dist (vectorstore w))) (query s)) = Inr content
         \<and> cs = [Retriever_invoke 3 (query s),
                 LLM_invoke llm (rag_messages (take 3 (sort_key dist (vectorstore w))) (query s))]
         \<and> cmd = \<lparr>goto = END,
                   update = [Set_result content,
                             Set_documents (doc_sources (take 3 (sort_key dist (vectorstore w))))]\<rparr>"
  using assms
  by (auto simp add: rag_search_node_def similarity_search_def Let_def split: sum.splits)

lemma sort_key_Nil_iff: "sort_key f xs = [] \<longleftrightarrow> xs = []"
  using length_sort [of f xs] by (metis length_0_conv)

lemma web_messages_eq:
  "web_messages sr q =
     [SystemMessage ''Sei un assistente AI che sintetizza informazioni da ricerche web.'',
      HumanMessage (web_prompt (join ''\<newline>\<newline>'' (map result_block (dict_get sr ''results'' []))) q)]"
  by (simp add: web_messages_def)

lemma web_messages_text:
  "web_messages sr q =
     [SystemMessage ''Sei un assistente AI che sintetizza informazioni da ricerche web.'',
      HumanMessage
        (''Usa i seguenti risultati di ricerca web per rispondere alla domanda.\<newline>''
         @ ''\<newline>''
         @ ''RISULTATI WEB:\<newline>''
         @ join ''\<newline>\<newline>'' (map result_block (dict_get sr ''results'' []))
         @ ''\<newline>''
         @ ''\<newline>''
         @ ''DOMANDA: '' @ q @ ''\<newline>''
         @ ''\<newline>''
         @ ''RISPOSTA (sintetizza le informazioni in modo chiaro):'')]"
  unfolding web_messages_eq web_prompt_def ..

lemma run_agent_query:
  assumes "run_agent w q = Inr r"
  shows "r_query r = q"
  using assms run_graph_cases [of w q]
  by (elim disjE exE conjE) (auto simp add: initial_state_def run_agent_def)

lemma rag_search_node_succeeds:
  assumes "similarity_search w (query s) 3 = Inr docs"
    and "llm_invoke w llm (rag_messages docs (query s)) = Inr content"
  shows "rag_search_node w s =
           ([Retriever_invoke 3 (query s), LLM_invoke llm (rag_messages docs (query s))],
            Inr \<lparr>goto = END, update = [Set_result content, Set_documents (doc_sources docs)]\<rparr>)"
  using assms by (simp add: rag_search_node_def Let_def)

lemma dict_get_missing:
  assumes "map_of d k = None"
  shows "dict_get d k dflt = dflt"
  using assms by (simp add: dict_get_def)

section \<open>The router\<close>

text \<open>
  Claim C1. Whenever the classifier returns an output, the router sets the category
  (the \<open>decision\<close> key, and the node it goes to) to the output trimmed and lowercased if
  that is one of the two labels \<open>rag_search\<close> and \<open>web_search\<close>, and to the default
  \<open>rag_search\<close> for every other output.
\<close>

theorem router_node_category:
  assumes "llm_invoke w llm (router_messages (query state)) = Inr content"
  shows "\<exists>cs cmd d. router_node w state = (cs, Inr cmd)
           \<and> goto cmd = Goto d \<and> update cmd = [Set_decision d]
           \<and> decision (apply_update state (update cmd)) = d
           \<and> d = (if lower (strip content) \<in> {''rag_search'', ''web_search''}
                   then lower (strip content) else ''rag_search'')"
  using assms by (simp add: router_node_def Let_def apply_update_def)

theorem router_node_category_witness:
  "llm_invoke (fixed_env '' Web_Search\<newline>'' (Inr ''ok'') (Inr two_results) sample_documents) llm
      (router_messages (query (initial_state ''latest AI news''))) = Inr '' Web_Search\<newline>''
   \<and> (\<exists>cs cmd. router_node (fixed_env '' Web_Search\<newline>'' (Inr ''ok'') (Inr two_results) sample_documents)
                   (initial_state ''latest AI news'') = (cs, Inr cmd)
        \<and> decision (apply_update (initial_state ''latest AI news'') (update cmd)) = ''web_search'')"
proof -
  let ?w = "fixed_env '' Web_Search\<newline>'' (Inr ''ok'') (Inr two_results) sample_documents"
  let ?s = "initial_state ''latest AI news''"
  have h: "llm_invoke ?w llm (router_messages (query ?s)) = Inr '' Web_Search\<newline>''"
    by (simp add: fixed_env_def fixed_llm_def router_messages_def)
  have n: "lower (strip '' Web_Search\<newline>'') = ''web_search''"
    by code_simp
  from router_node_category [OF h] n h show ?thesis
    by auto
qed

text \<open>
  The outputs the specification lists: a word that is no label, the empty output, a
  label with extra words and a part of a label are none of the two labels, so they take
  the default; \<open>RAG_SEARCH\<close> with a trailing blank normalises to the retrieval label.
\<close>

lemma router_defaults:
  "lower (strip ''maybe'') \<notin> {''rag_search'', ''web_search''}"
  "lower (strip '''') \<notin> {''rag_search'', ''web_search''}"
  "lower (strip ''web_search please'') \<notin> {''rag_search'', ''web_search''}"
  "lower (strip ''web'') \<notin> {''rag_search'', ''web_search''}"
  "lower (strip ''RAG_SEARCH '') = ''rag_search''"
  by code_simp+

section \<open>The web-search responder\<close>

text \<open>
  Claim C2. When the call to the search provider raises, the web-search responder
  returns normally: its answer is the text \<open>Errore durante la ricerca web:\<close> followed by
  the message of the exception, hence non-empty; its sources are empty; the category and
  the query of the state are unchanged.
\<close>

theorem web_search_provider_exception:
  assumes "tavily_search w (query state) ''basic'' 3 = Inl e"
  shows "\<exists>cmd. web_search_node w state = ([Tavily_search (query state) ''basic'' 3], Inr cmd)
           \<and> goto cmd = END
           \<and> update cmd = [Set_result (''Errore durante la ricerca web: '' @ str e), Set_documents []]
           \<and> result (apply_update state (update cmd)) = ''Errore durante la ricerca web: '' @ str e
           \<and> result (apply_update state (update cmd)) \<noteq> ''''
           \<and> documents (apply_update state (update cmd)) = []
           \<and> decision (apply_update state (update cmd)) = decision state
           \<and> query (apply_update state (update cmd)) = query state"
  using assms by (simp add: web_search_node_raises web_fallback_def apply_update_def)

theorem web_search_provider_exception_witness:
  "tavily_search (fixed_env ''web_search'' (Inr ''ok'') (Inl (Exception ''quota exceeded'')) sample_documents)
      (query ((initial_state ''latest AI news'')\<lparr>decision := ''web_search''\<rparr>)) ''basic'' 3
     = Inl (Exception ''quota exceeded'')
   \<and> (\<exists>cmd. snd (web_search_node (fixed_env ''web_search'' (Inr ''ok'') (Inl (Exception ''quota exceeded'')) sample_documents)
                    ((initial_state ''latest AI news'')\<lparr>decision := ''web_search''\<rparr>)) = Inr cmd
        \<and> apply_update ((initial_state ''latest AI news'')\<lparr>decision := ''web_search''\<rparr>) (update cmd)
            = \<lparr>query = ''latest AI news'', decision = ''web_search'',
               result = ''Errore durante la ricerca web: quota exceeded'', documents = []\<rparr>)"
proof -
  let ?w = "fixed_env ''web_search'' (Inr ''ok'') (Inl (Exception ''quota exceeded'')) sample_documents"
  let ?s = "(initial_state ''latest AI news'')\<lparr>decision := ''web_search''\<rparr>"
  have h: "tavily_search ?w (query ?s) ''basic'' 3 = Inl (Exception ''quota exceeded'')"
    by (simp add: fixed_env_def)
  from web_search_provider_exception [OF h] h show ?thesis
    by (auto simp add: initial_state_def apply_update_def)
qed

section \<open>The run of the graph\<close>

text \<open>
  Claim C3. In every run of the graph the sources are empty in the initial state and
  after the router's step; the router's step is the only one that sets the category, and
  the state after the responder's step carries the category the router set; the one
  update of the sources is in the step of the responder the router selected, so a
  completed run sets them exactly once. (A run ends with no completed step when the
  router raises, with the router's step alone when the responder raises.)
\<close>

theorem decision_kept_documents_set_once:
  "documents (initial_state q) = []
   \<and> ((\<exists>e. steps (run_graph w q) = [] \<and> outcome (run_graph w q) = Inl e)
      \<or> (\<exists>d s1 e. steps (run_graph w q) = [(''router'', [Set_decision d], s1)]
            \<and> decision s1 = d \<and> documents s1 = []
            \<and> outcome (run_graph w q) = Inl e)
      \<or> (\<exists>d s1 a srcs s2.
            steps (run_graph w q) =
              [(''router'', [Set_decision d], s1), (d, [Set_result a, Set_documents srcs], s2)]
            \<and> decision s1 = d \<and> documents s1 = []
            \<and> decision s2 = d \<and> documents s2 = srcs
            \<and> outcome (run_graph w q) = Inr s2))"
proof -
  have "documents (initial_state q) = []"
    by (simp add: initial_state_def)
  moreover from run_graph_cases [of w q]
  have "(\<exists>e. steps (run_graph w q) = [] \<and> outcome (run_graph w q) = Inl e)
      \<or> (\<exists>d s1 e. steps (run_graph w q) = [(''router'', [Set_decision d], s1)]
            \<and> decision s1 = d \<and> documents s1 = []
            \<and> outcome (run_graph w q) = Inl e)
      \<or> (\<exists>d s1 a srcs s2.
            steps (run_graph w q) =
              [(''router'', [Set_decision d], s1), (d, [Set_result a, Set_documents srcs], s2)]
            \<and> decision s1 = d \<and> documents s1 = []
            \<and> decision s2 = d \<and> documents s2 = srcs
            \<and> outcome (run_graph w q) = Inr s2)"
  proof (elim disjE exE conjE)
    fix e
    assume "run_graph w q =
      \<lparr>visited = [''router''], steps = [], calls = [LLM_invoke llm (router_messages q)], outcome = Inl e\<rparr>"
    then show ?thesis by simp
  next
    fix c s1 cs e
    assume "s1 = (initial_state q)\<lparr>decision := ''rag_search''\<rparr>"
      and "run_graph w q =
           \<lparr>visited = [''router'', ''rag_search''],
            steps = [(''router'', [Set_decision ''rag_search''], s1)],
            calls = LLM_invoke llm (router_messages q) # cs, outcome = Inl e\<rparr>"
    then show ?thesis by (simp add: initial_state_def)
  next
    fix c d s1 cs a srcs
    assume "s1 = (initial_state q)\<lparr>decision := d\<rparr>"
      and "run_graph w q =
           \<lparr>visited = [''router'', d],
            steps = [(''router'', [Set_decision d], s1),
                     (d, [Set_result a, Set_documents srcs], s1\<lparr>result := a, documents := srcs\<rparr>)],
            calls = LLM_invoke llm (router_messages q) # cs,
            outcome = Inr (s1\<lparr>result := a, documents := srcs\<rparr>)\<rparr>"
    then show ?thesis by (simp add: initial_state_def)
  qed
  ultimately show ?thesis by blast
qed

theorem decision_kept_documents_set_once_witness:
  "\<exists>s1 a srcs s2.
     steps (run_graph (fixed_env ''web_search'' (Inr ''ok'') (Inr two_results) sample_documents) ''latest AI news'') =
       [(''router'', [Set_decision ''web_search''], s1),
        (''web_search'', [Set_result a, Set_documents srcs], s2)]
     \<and> documents s1 = [] \<and> decision s1 = ''web_search'' \<and> decision s2 = ''web_search''
     \<and> documents s2 = srcs"
proof -
  let ?w = "fixed_env ''web_search'' (Inr ''ok'') (Inr two_results) sample_documents"
  have ev: "map fst (steps (run_graph ?w ''latest AI news'')) = [''router'', ''web_search'']"
    by code_simp
  from decision_kept_documents_set_once [of "''latest AI news''" ?w] ev show ?thesis
    by auto
qed



text \<open>
  Claim C8. Two runs on the same query whose classifier gives the same outcome on the
  router's prompt (the model called with temperature 0) return the same category,
  whatever the store, the search provider and the answers to other prompts are.
\<close>

theorem category_depends_on_classifier_only:
  assumes "llm_invoke w1 llm (router_messages q) = llm_invoke w2 llm (router_messages q)"
    and "run_agent w1 q = Inr r1"
    and "run_agent w2 q = Inr r2"
  shows "r_decision r1 = r_decision r2"
  using assms run_graph_cases [of w1 q] run_graph_cases [of w2 q]
  by (elim disjE exE conjE) (auto simp add: run_agent_def split: if_splits)


theorem category_depends_on_classifier_only_witness:
  "llm_invoke (fixed_env ''web_search'' (Inr ''ok'') (Inr two_results) sample_documents) llm
       (router_messages ''latest AI news'')
     = llm_invoke (fixed_env ''web_search'' (Inl (Exception ''timeout'')) (Inl (Exception ''quota'')) []) llm
       (router_messages ''latest AI news'')
   \<and> run_agent (fixed_env ''web_search'' (Inr ''ok'') (Inr two_results) sample_documents) ''latest AI news''
     = Inr \<lparr>r_query = ''latest AI news'', r_decision = ''web_search'', r_result = ''ok'',
            r_sources = [''https://example.org/a'', ''N/A'']\<rparr>
   \<and> run_agent (fixed_env ''web_search'' (Inl (Exception ''timeout'')) (Inl (Exception ''quota'')) []) ''latest AI news''
     = Inr \<lparr>r_query = ''latest AI news'', r_decision = ''web_search'',
            r_result = ''Errore durante la ricerca web: quota'', r_sources = []\<rparr>"
proof -
  let ?w1 = "fixed_env ''web_search'' (Inr ''ok'') (Inr two_results) sample_documents"
  let ?w2 = "fixed_env ''web_search'' (Inl (Exception ''timeout'')) (Inl (Exception ''quota'')) []"
  let ?q = "''latest AI news''"
  let ?r1 = "\<lparr>r_query = ?q, r_decision = ''web_search'', r_result = ''ok'',
            r_sources = [''https://example.org/a'', ''N/A'']\<rparr>"
  let ?r2 = "\<lparr>r_query = ?q, r_decision = ''web_search'',
            r_result = ''Errore durante la ricerca web: quota'', r_sources = []\<rparr>"
  have h: "llm_invoke ?w1 llm (router_messages ?q) = llm_invoke ?w2 llm (router_messages ?q)"
    by (simp add: fixed_env_def fixed_llm_def router_messages_def)
  have r1: "run_agent ?w1 ?q = Inr ?r1"
    by code_simp
  have r2: "run_agent ?w2 ?q = Inr ?r2"
    by code_simp
  from category_depends_on_classifier_only [OF h r1 r2] h r1 r2 show ?thesis
    by simp
qed

section \<open>The retrieval responder\<close>

text \<open>
  Claim C5. When the retrieval responder returns, its sources are the provenance labels
  (\<open>unknown\<close> where a passage has none) of the passages the store's search returned for
  \<open>k = 3\<close>, one per passage in retrieval order, none removed; there are at most three of
  them, and none only if the store is empty.
\<close>

theorem rag_search_sources:
  assumes "rag_search_node w state = (cs, Inr cmd)"
  shows "\<exists>dist content.
           embed_query w (query state) = Inr dist
         \<and> similarity_search w (query state) 3 = Inr (take 3 (sort_key dist (vectorstore w)))
         \<and> update cmd = [Set_result content,
                          Set_documents (map (\<lambda>doc. dict_get (metadata doc) ''source'' ''unknown'')
                                             (take 3 (sort_key dist (vectorstore w))))]
         \<and> documents (apply_update state (update cmd)) =
             map (\<lambda>doc. dict_get (metadata doc) ''source'' ''unknown'')
                 (take 3 (sort_key dist (vectorstore w)))
         \<and> length (documents (apply_update state (update cmd))) \<le> 3
         \<and> length (documents (apply_update state (update cmd))) = min 3 (length (vectorstore w))
         \<and> (documents (apply_update state (update cmd)) = [] \<longrightarrow> vectorstore w = [])"
proof -
  from rag_search_node_returns [OF assms] obtain dist content where
    e: "embed_query w (query state) = Inr dist"
    and s: "similarity_search w (query state) 3 = Inr (take 3 (sort_key dist (vectorstore w)))"
    and c: "cmd = \<lparr>goto = END,
                   update = [Set_result content,
                             Set_documents (doc_sources (take 3 (sort_key dist (vectorstore w))))]\<rparr>"
    by blast
  have "take 3 (sort_key dist (vectorstore w)) = [] \<longrightarrow> vectorstore w = []"
    by (simp add: sort_key_Nil_iff)
  with e s c show ?thesis
    by (simp add: apply_update_answer doc_sources_def min_def)
qed

theorem rag_search_sources_witness:
  "\<exists>cs cmd. rag_search_node (fixed_env ''rag_search'' (Inr ''ok'') (Inr two_results)
                                (sample_documents @ [\<lparr>page_content = ''note'', metadata = []\<rparr>]))
                 ((initial_state ''What is FastAPI?'')\<lparr>decision := ''rag_search''\<rparr>) = (cs, Inr cmd)
     \<and> documents (apply_update ((initial_state ''What is FastAPI?'')\<lparr>decision := ''rag_search''\<rparr>) (update cmd))
         = [''unknown'', ''ml_basics.txt'', ''python_intro.txt'']"
proof -
  let ?w = "fixed_env ''rag_search'' (Inr ''ok'') (Inr two_results)
                                (sample_documents @ [\<lparr>page_content = ''note'', metadata = []\<rparr>])"
  let ?s = "(initial_state ''What is FastAPI?'')\<lparr>decision := ''rag_search''\<rparr>"
  obtain cs cmd where h: "rag_search_node ?w ?s = (cs, Inr cmd)"
    by (simp add: rag_search_node_def similarity_search_def fixed_env_def fixed_llm_def
        rag_messages_def system_prompt_def Let_def)
  have d: "embed_query ?w (query ?s) = Inr label_distance"
    by (simp add: fixed_env_def)
  have ev: "map (\<lambda>doc. dict_get (metadata doc) ''source'' ''unknown'')
              (take 3 (sort_key label_distance (vectorstore ?w)))
            = [''unknown'', ''ml_basics.txt'', ''python_intro.txt'']"
    by code_simp
  from rag_search_sources [OF h] d ev h show ?thesis
    by auto
qed


section \<open>The web-search responder when the provider answers\<close>

text \<open>
  Claim C6, as amended. When the call to the search provider returns, the provider was
  asked once, at depth \<open>basic\<close> for at most 3 results, and the language model is invoked
  once, with the context made of one block per result (\<open>Fonte:\<close>, the URL, a line break,
  the content snippet), the blocks separated by an empty line. When that invocation
  returns, the sources are the URLs of the results in the provider's order; when it
  raises, the responder returns its error answer with no sources.
\<close>

theorem web_search_provider_success:
  assumes "tavily_search w (query state) ''basic'' 3 = Inr search_results"
  shows "\<exists>cmd messages.
           messages =
             [SystemMessage ''Sei un assistente AI che sintetizza informazioni da ricerche web.'',
              HumanMessage
                (''Usa i seguenti risultati di ricerca web per rispondere alla domanda.\<newline>''
                 @ ''\<newline>''
                 @ ''RISULTATI WEB:\<newline>''
                 @ join ''\<newline>\<newline>''
                      (map (\<lambda>r. ''Fonte: '' @ dict_get r ''url'' ''N/A'' @ ''\<newline>'' @ dict_get r ''content'' '''')
                           (dict_get search_results ''results'' []))
                 @ ''\<newline>''
                 @ ''\<newline>''
                 @ ''DOMANDA: '' @ query state @ ''\<newline>''
                 @ ''\<newline>''
                 @ ''RISPOSTA (sintetizza le informazioni in modo chiaro):'')]
         \<and> web_search_node w state =
             ([Tavily_search (query state) ''basic'' 3, LLM_invoke llm messages], Inr cmd)
         \<and> goto cmd = END
         \<and> (\<forall>content. llm_invoke w llm messages = Inr content \<longrightarrow>
                update cmd =
                  [Set_result content,
                   Set_documents (map (\<lambda>r. dict_get r ''url'' ''N/A'')
                                      (dict_get search_results ''results'' []))]
              \<and> result (apply_update state (update cmd)) = content
              \<and> documents (apply_update state (update cmd)) =
                  map (\<lambda>r. dict_get r ''url'' ''N/A'') (dict_get search_results ''results'' []))
         \<and> (\<forall>e. llm_invoke w llm messages = Inl e \<longrightarrow>
                update cmd = [Set_result (''Errore durante la ricerca web: '' @ str e), Set_documents []])"
proof -
  have b: "result_block = (\<lambda>r. ''Fonte: '' @ dict_get r ''url'' ''N/A'' @ ''\<newline>'' @ dict_get r ''content'' '''')"
    by (rule ext) (simp add: result_block_def)
  have m: "web_messages search_results (query state) =
             [SystemMessage ''Sei un assistente AI che sintetizza informazioni da ricerche web.'',
              HumanMessage
                (''Usa i seguenti risultati di ricerca web per rispondere alla domanda.\<newline>''
                 @ ''\<newline>''
                 @ ''RISULTATI WEB:\<newline>''
                 @ join ''\<newline>\<newline>''
                      (map (\<lambda>r. ''Fonte: '' @ dict_get r ''url'' ''N/A'' @ ''\<newline>'' @ dict_get r ''content'' '''')
                           (dict_get search_results ''results'' []))
                 @ ''\<newline>''
                 @ ''\<newline>''
                 @ ''DOMANDA: '' @ query state @ ''\<newline>''
                 @ ''\<newline>''
                 @ ''RISPOSTA (sintetizza le informazioni in modo chiaro):'')]"
    unfolding web_messages_eq web_prompt_def b ..
  show ?thesis
    unfolding web_search_node_found [OF assms] m [symmetric]
    by (cases "llm_invoke w llm (web_messages search_results (query state))")
       (simp_all add: web_fallback_def apply_update_answer result_urls_def)
qed

theorem web_search_provider_success_witness:
  "\<exists>cmd. snd (web_search_node (fixed_env ''web_search'' (Inr ''ok'') (Inr two_results) sample_documents)
                (initial_state ''latest AI news'')) = Inr cmd
       \<and> update cmd = [Set_result ''ok'', Set_documents [''https://example.org/a'', ''N/A'']]"
proof -
  let ?w = "fixed_env ''web_search'' (Inr ''ok'') (Inr two_results) sample_documents"
  let ?s = "initial_state ''latest AI news''"
  have h: "tavily_search ?w (query ?s) ''basic'' 3 = Inr two_results"
    by (simp add: fixed_env_def)
  have l: "llm_invoke ?w llm
             (SystemMessage ''Sei un assistente AI che sintetizza informazioni da ricerche web.'' # ms)
           = Inr ''ok''" for ms
    by (simp add: fixed_env_def fixed_llm_def system_prompt_def)
  have u: "map (\<lambda>r. dict_get r ''url'' ''N/A'') (dict_get two_results ''results'' [])
             = [''https://example.org/a'', ''N/A'']"
    by code_simp
  from web_search_provider_success [OF h] obtain cmd messages where
    m: "\<exists>ms. messages =
          SystemMessage ''Sei un assistente AI che sintetizza informazioni da ricerche web.'' # ms"
    and n: "web_search_node ?w ?s =
          ([Tavily_search (query ?s) ''basic'' 3, LLM_invoke llm messages], Inr cmd)"
    and c: "\<forall>content. llm_invoke ?w llm messages = Inr content \<longrightarrow>
          update cmd =
            [Set_result content,
             Set_documents (map (\<lambda>r. dict_get r ''url'' ''N/A'') (dict_get two_results ''results'' []))]"
    by blast
  from m l have "llm_invoke ?w llm messages = Inr ''ok''"
    by blast
  with c u have "update cmd = [Set_result ''ok'', Set_documents [''https://example.org/a'', ''N/A'']]"
    by simp
  with n show ?thesis
    by simp
qed

text \<open>
  The claim as it was stated (the provider's call succeeding is enough for the sources
  to be the URLs) fails when the language model raises after the provider has returned
  two results: the exception is caught by the same handler and the sources are empty.
\<close>

theorem web_search_sources_counterexample:
  "tavily_search (fixed_env ''web_search'' (Inl (Exception ''timeout'')) (Inr two_results) sample_documents)
       ''latest AI news'' ''basic'' 3 = Inr two_results
   \<and> result_urls two_results = [''https://example.org/a'', ''N/A'']
   \<and> snd (web_search_node (fixed_env ''web_search'' (Inl (Exception ''timeout'')) (Inr two_results) sample_documents)
            \<lparr>query = ''latest AI news'', decision = ''web_search'', result = '''', documents = []\<rparr>)
       = Inr \<lparr>goto = END,
              update = [Set_result ''Errore durante la ricerca web: timeout'', Set_documents []]\<rparr>
   \<and> run_agent (fixed_env ''web_search'' (Inl (Exception ''timeout'')) (Inr two_results) sample_documents)
         ''latest AI news''
       = Inr \<lparr>r_query = ''latest AI news'', r_decision = ''web_search'',
              r_result = ''Errore durante la ricerca web: timeout'', r_sources = []\<rparr>"
  by code_simp

text \<open>
  Claim C10. When the provider returns a response with no \<open>results\<close> key or with an empty
  list of results, the responder still returns: the language model is invoked once, with
  an empty context block, and the sources are empty, with the category unchanged,
  whether that invocation returns or raises.
\<close>

theorem web_search_no_results:
  assumes "tavily_search w (query state) ''basic'' 3 = Inr search_results"
    and "map_of search_results ''results'' = None \<or> map_of search_results ''results'' = Some []"
  shows "\<exists>cmd. web_search_node w state =
                 ([Tavily_search (query state) ''basic'' 3,
                   LLM_invoke llm
                     [SystemMessage ''Sei un assistente AI che sintetizza informazioni da ricerche web.'',
                      HumanMessage (web_prompt '''' (query state))]],
                  Inr cmd)
           \<and> goto cmd = END
           \<and> documents (apply_update state (update cmd)) = []
           \<and> decision (apply_update state (update cmd)) = decision state"
proof -
  from assms(2) have "dict_get search_results ''results'' [] = []"
    by (auto simp add: dict_get_def)
  then show ?thesis
    unfolding web_search_node_found [OF assms(1)] web_messages_eq
    by (simp add: apply_update_answer result_urls_def web_fallback_def split: sum.split)
qed

theorem web_search_no_results_witness:
  "tavily_search (fixed_env ''web_search'' (Inr ''nothing found'') (Inr [(''query'', [])]) sample_documents)
      (query (initial_state ''latest AI news'')) ''basic'' 3 = Inr [(''query'', [])]
   \<and> map_of [(''query'', ([] :: search_result list))] ''results'' = None
   \<and> snd (web_search_node (fixed_env ''web_search'' (Inr ''nothing found'') (Inr [(''query'', [])]) sample_documents)
           (initial_state ''latest AI news''))
       = Inr \<lparr>goto = END, update = [Set_result ''nothing found'', Set_documents []]\<rparr>"
proof -
  let ?w = "fixed_env ''web_search'' (Inr ''nothing found'') (Inr [(''query'', [])]) sample_documents"
  let ?s = "initial_state ''latest AI news''"
  have h: "tavily_search ?w (query ?s) ''basic'' 3 = Inr [(''query'', [])]"
    by (simp add: fixed_env_def)
  have k: "map_of [(''query'', ([] :: search_result list))] ''results'' = None
           \<or> map_of [(''query'', ([] :: search_result list))] ''results'' = Some []"
    by simp
  have ev: "snd (web_search_node ?w ?s)
       = Inr \<lparr>goto = END, update = [Set_result ''nothing found'', Set_documents []]\<rparr>"
    by code_simp
  from web_search_no_results [OF h k] h ev show ?thesis
    by simp
qed

text \<open>
  Claim C9, as amended. A retrieved passage whose metadata has no \<open>source\<close> key yields the
  entry \<open>unknown\<close> at its position in the sources of the retrieval responder. A search
  result with no \<open>url\<close> key yields \<open>N/A\<close> in its block of the context sent to the language
  model and, when the language model returns, at its position in the sources; when the
  language model raises, the sources are empty. A missing key never makes a responder
  fail: the retrieval responder returns whenever the search and the language model do,
  and the web-search responder always returns.
\<close>

theorem missing_provenance_defaults:
  "(\<forall>docs content i.
       similarity_search w (query state) 3 = Inr docs
     \<and> llm_invoke w llm (rag_messages docs (query state)) = Inr content
     \<and> i < length docs \<and> map_of (metadata (docs ! i)) ''source'' = None
     \<longrightarrow> (\<exists>cs cmd. rag_search_node w state = (cs, Inr cmd)
            \<and> length (documents (apply_update state (update cmd))) = length docs
            \<and> documents (apply_update state (update cmd)) ! i = ''unknown''))
   \<and> (\<forall>search_results rs i.
       tavily_search w (query state) ''basic'' 3 = Inr search_results
     \<and> rs = dict_get search_results ''results'' []
     \<and> i < length rs \<and> map_of (rs ! i) ''url'' = None
     \<longrightarrow> (\<exists>cmd messages.
              messages =
                [SystemMessage ''Sei un assistente AI che sintetizza informazioni da ricerche web.'',
                 HumanMessage
                   (''Usa i seguenti risultati di ricerca web per rispondere alla domanda.\<newline>''
                    @ ''\<newline>''
                    @ ''RISULTATI WEB:\<newline>''
                    @ join ''\<newline>\<newline>'' (map result_block rs)
                    @ ''\<newline>''
                    @ ''\<newline>''
                    @ ''DOMANDA: '' @ query state @ ''\<newline>''
                    @ ''\<newline>''
                    @ ''RISPOSTA (sintetizza le informazioni in modo chiaro):'')]
            \<and> web_search_node w state =
                   ([Tavily_search (query state) ''basic'' 3, LLM_invoke llm messages], Inr cmd)
            \<and> length (map result_block rs) = length rs
            \<and> map result_block rs ! i = ''Fonte: N/A\<newline>'' @ dict_get (rs ! i) ''content'' ''''
            \<and> (\<forall>content. llm_invoke w llm messages = Inr content
                  \<longrightarrow> length (documents (apply_update state (update cmd))) = length rs
                    \<and> documents (apply_update state (update cmd)) ! i = ''N/A'')
            \<and> (\<forall>e. llm_invoke w llm messages = Inl e
                  \<longrightarrow> documents (apply_update state (update cmd)) = [])))
   \<and> (\<exists>cs cmd. web_search_node w state = (cs, Inr cmd))"
proof (intro conjI allI impI)
  fix docs content i
  assume a: "similarity_search w (query state) 3 = Inr docs
     \<and> llm_invoke w llm (rag_messages docs (query state)) = Inr content
     \<and> i < length docs \<and> map_of (metadata (docs ! i)) ''source'' = None"
  then have "rag_search_node w state =
           ([Retriever_invoke 3 (query state), LLM_invoke llm (rag_messages docs (query state))],
            Inr \<lparr>goto = END, update = [Set_result content, Set_documents (doc_sources docs)]\<rparr>)"
    by (simp add: rag_search_node_succeeds)
  moreover from a have "doc_sources docs ! i = ''unknown''"
    by (simp add: doc_sources_def dict_get_missing)
  ultimately show "\<exists>cs cmd. rag_search_node w state = (cs, Inr cmd)
            \<and> length (documents (apply_update state (update cmd))) = length docs
            \<and> documents (apply_update state (update cmd)) ! i = ''unknown''"
    by (simp add: apply_update_answer doc_sources_def)
next
  fix search_results rs i
  assume a: "tavily_search w (query state) ''basic'' 3 = Inr search_results
     \<and> rs = dict_get search_results ''results'' []
     \<and> i < length rs \<and> map_of (rs ! i) ''url'' = None"
  then have f: "tavily_search w (query state) ''basic'' 3 = Inr search_results"
    by simp
  from a have rs: "dict_get search_results ''results'' [] = rs"
    and i: "i < length rs" and u: "map_of (rs ! i) ''url'' = None"
    by blast+
  from i have "map result_block rs ! i = result_block (rs ! i)"
    by simp
  with u have blk: "map result_block rs ! i = ''Fonte: N/A\<newline>'' @ dict_get (rs ! i) ''content'' ''''"
    by (simp add: result_block_def dict_get_missing)
  have "result_urls search_results = map (\<lambda>r. dict_get r ''url'' ''N/A'') rs"
    by (simp add: result_urls_def rs)
  with i u have url: "result_urls search_results ! i = ''N/A''"
    and len: "length (result_urls search_results) = length rs"
    by (simp_all add: dict_get_missing)
  note m = web_messages_text [of search_results "query state", unfolded rs]
  from blk url len show "\<exists>cmd messages.
              messages =
                [SystemMessage ''Sei un assistente AI che sintetizza informazioni da ricerche web.'',
                 HumanMessage
                   (''Usa i seguenti risultati di ricerca web per rispondere alla domanda.\<newline>''
                    @ ''\<newline>''
                    @ ''RISULTATI WEB:\<newline>''
                    @ join ''\<newline>\<newline>'' (map result_block rs)
                    @ ''\<newline>''
                    @ ''\<newline>''
                    @ ''DOMANDA: '' @ query state @ ''\<newline>''
                    @ ''\<newline>''
                    @ ''RISPOSTA (sintetizza le informazioni in modo chiaro):'')]
            \<and> web_search_node w state =
                   ([Tavily_search (query state) ''basic'' 3, LLM_invoke llm messages], Inr cmd)
            \<and> length (map result_block rs) = length rs
            \<and> map result_block rs ! i = ''Fonte: N/A\<newline>'' @ dict_get (rs ! i) ''content'' ''''
            \<and> (\<forall>content. llm_invoke w llm messages = Inr content
                  \<longrightarrow> length (documents (apply_update state (update cmd))) = length rs
                    \<and> documents (apply_update state (update cmd)) ! i = ''N/A'')
            \<and> (\<forall>e. llm_invoke w llm messages = Inl e
                  \<longrightarrow> documents (apply_update state (update cmd)) = [])"
    unfolding web_search_node_found [OF f] m [symmetric]
    by (cases "llm_invoke w llm (web_messages search_results (query state))")
       (simp_all add: apply_update_answer web_fallback_def)
next
  show "\<exists>cs cmd. web_search_node w state = (cs, Inr cmd)"
    using web_search_node_shape [of w state] by blast
qed

theorem missing_provenance_defaults_witness:
  "(\<exists>cs cmd. rag_search_node
                 (fixed_env ''rag_search'' (Inr ''ok'') (Inr two_results)
                    (\<lparr>page_content = ''note'', metadata = [(''author'', ''me'')]\<rparr> # sample_documents))
                 (initial_state ''What is FastAPI?'') = (cs, Inr cmd)
       \<and> documents (apply_update (initial_state ''What is FastAPI?'') (update cmd)) ! 0 = ''unknown'')
   \<and> (\<exists>cs cmd. web_search_node
                 (fixed_env ''rag_search'' (Inr ''ok'') (Inr two_results)
                    (\<lparr>page_content = ''note'', metadata = [(''author'', ''me'')]\<rparr> # sample_documents))
                 (initial_state ''What is FastAPI?'') = (cs, Inr cmd)
       \<and> documents (apply_update (initial_state ''What is FastAPI?'') (update cmd)) ! 1 = ''N/A'')"
proof -
  let ?w = "fixed_env ''rag_search'' (Inr ''ok'') (Inr two_results)
              (\<lparr>page_content = ''note'', metadata = [(''author'', ''me'')]\<rparr> # sample_documents)"
  let ?s = "initial_state ''What is FastAPI?''"
  let ?docs = "take 3 (sort_key label_distance (vectorstore ?w))"
  let ?rs = "dict_get two_results ''results'' []"
  note t = missing_provenance_defaults [of ?w ?s]
  have s: "similarity_search ?w (query ?s) 3 = Inr ?docs"
    by (simp add: similarity_search_def fixed_env_def)
  have l: "llm_invoke ?w llm (rag_messages ?docs (query ?s)) = Inr ''ok''"
    by (simp add: fixed_env_def fixed_llm_def rag_messages_def system_prompt_def)
  have i: "0 < length ?docs" and m: "map_of (metadata (?docs ! 0)) ''source'' = None"
    by code_simp+
  from t [THEN conjunct1, rule_format, of ?docs "''ok''" 0] s l i m
  have rag: "\<exists>cs cmd. rag_search_node ?w ?s = (cs, Inr cmd)
       \<and> documents (apply_update ?s (update cmd)) ! 0 = ''unknown''"
    by blast
  have f: "tavily_search ?w (query ?s) ''basic'' 3 = Inr two_results"
    by (simp add: fixed_env_def)
  have j: "1 < length ?rs" and u: "map_of (?rs ! 1) ''url'' = None"
    by code_simp+
  have k: "llm_invoke ?w llm
             (SystemMessage ''Sei un assistente AI che sintetizza informazioni da ricerche web.'' # ms)
           = Inr ''ok''" for ms
    by (simp add: fixed_env_def fixed_llm_def system_prompt_def)
  from t [THEN conjunct2, THEN conjunct1, rule_format, of two_results ?rs 1] f j u
  obtain cmd messages where
    m: "\<exists>ms. messages =
          SystemMessage ''Sei un assistente AI che sintetizza informazioni da ricerche web.'' # ms"
    and n: "web_search_node ?w ?s =
          ([Tavily_search (query ?s) ''basic'' 3, LLM_invoke llm messages], Inr cmd)"
    and c: "\<forall>content. llm_invoke ?w llm messages = Inr content \<longrightarrow>
          documents (apply_update ?s (update cmd)) ! 1 = ''N/A''"
    by blast
  from m k have "llm_invoke ?w llm messages = Inr ''ok''"
    by blast
  with c n have web: "\<exists>cs cmd. web_search_node ?w ?s = (cs, Inr cmd)
       \<and> documents (apply_update ?s (update cmd)) ! 1 = ''N/A''"
    by blast
  from rag web show ?thesis
    by blast
qed

text \<open>
  The claim as it was stated (\<open>N/A\<close> in the sources for every result with no \<open>url\<close> key)
  fails when the language model raises: the second of two results has no \<open>url\<close> key, its
  block went into the context, and the responder returns no sources at all.
\<close>

theorem missing_provenance_counterexample:
  "tavily_search (fixed_env ''web_search'' (Inl (Exception ''rate limit'')) (Inr two_results) sample_documents)
       ''latest AI news'' ''basic'' 3 = Inr two_results
   \<and> map_of (dict_get two_results ''results'' [] ! 1) ''url'' = None
   \<and> web_search_node (fixed_env ''web_search'' (Inl (Exception ''rate limit'')) (Inr two_results) sample_documents)
        \<lparr>query = ''latest AI news'', decision = ''web_search'', result = '''', documents = []\<rparr>
       = ([Tavily_search ''latest AI news'' ''basic'' 3,
           LLM_invoke llm (web_messages two_results ''latest AI news'')],
          Inr \<lparr>goto = END,
               update = [Set_result ''Errore durante la ricerca web: rate limit'', Set_documents []]\<rparr>)
   \<and> documents
        (apply_update \<lparr>query = ''latest AI news'', decision = ''web_search'', result = '''', documents = []\<rparr>
           [Set_result ''Errore durante la ricerca web: rate limit'', Set_documents []]) = []"
  by code_simp

section \<open>The endpoint\<close>

text \<open>
  Claim C7. For a request whose query has 1 to 1000 characters, \<open>POST /chat\<close> answers with
  the record \<open>run_agent\<close> returned and the status \<open>success\<close> when the agent returns, and
  with status 500 and a detail text that ends with the message of the exception when
  the agent raises; the answer is outside the 2xx range exactly when the agent raises.
\<close>

theorem chat_status:
  assumes "1 \<le> length q" and "length q \<le> 1000"
  shows "(\<forall>r. run_agent w q = Inr r \<longrightarrow>
            chat w \<lparr>req_query = q\<rparr> =
              Response200 \<lparr>r_query = r_query r, r_decision = r_decision r, r_result = r_result r,
                           r_sources = r_sources r, status = ''success''\<rparr>
          \<and> r_query r = q)
       \<and> (\<forall>e. run_agent w q = Inl e \<longrightarrow>
            chat w \<lparr>req_query = q\<rparr> = HTTPException 500 (''Errore interno del server: '' @ str e))
       \<and> ((\<exists>detail. chat w \<lparr>req_query = q\<rparr> = HTTPException 500 detail) \<longleftrightarrow> (\<exists>e. run_agent w q = Inl e))
       \<and> (\<not> (200 \<le> status_code (chat w \<lparr>req_query = q\<rparr>) \<and> status_code (chat w \<lparr>req_query = q\<rparr>) < 300)
            \<longleftrightarrow> (\<exists>e. run_agent w q = Inl e))"
proof -
  have v: "valid_ChatRequest \<lparr>req_query = q\<rparr>"
    using assms by (simp add: valid_ChatRequest_def)
  show ?thesis
  proof (cases "run_agent w q")
    case (Inl e)
    with v show ?thesis by (simp add: chat_def status_code_def)
  next
    case (Inr r)
    from run_agent_query [OF Inr] have "r_query r = q" .
    with v Inr show ?thesis by (simp add: chat_def status_code_def)
  qed
qed

theorem chat_status_witness:
  "1 \<le> length ''hi'' \<and> length ''hi'' \<le> 1000
   \<and> chat (fixed_env ''rag_search'' (Inl (Exception ''timeout'')) (Inr two_results) sample_documents)
        \<lparr>req_query = ''hi''\<rparr>
     = HTTPException 500 ''Errore interno del server: timeout''
   \<and> chat (fixed_env ''web_search'' (Inl (Exception ''timeout'')) (Inr two_results) sample_documents)
        \<lparr>req_query = ''hi''\<rparr>
     = Response200 \<lparr>r_query = ''hi'', r_decision = ''web_search'',
                    r_result = ''Errore durante la ricerca web: timeout'', r_sources = [],
                    status = ''success''\<rparr>"
proof -
  let ?w1 = "fixed_env ''rag_search'' (Inl (Exception ''timeout'')) (Inr two_results) sample_documents"
  let ?w2 = "fixed_env ''web_search'' (Inl (Exception ''timeout'')) (Inr two_results) sample_documents"
  have a: "1 \<le> length ''hi''" and b: "length ''hi'' \<le> 1000"
    by simp_all
  have r1: "run_agent ?w1 ''hi'' = Inl (Exception ''timeout'')"
    by code_simp
  have r2: "run_agent ?w2 ''hi'' =
      Inr \<lparr>r_query = ''hi'', r_decision = ''web_search'',
           r_result = ''Errore durante la ricerca web: timeout'', r_sources = []\<rparr>"
    by code_simp
  from chat_status [OF a b, of ?w1] chat_status [OF a b, of ?w2] r1 r2 show ?thesis
    by simp
qed

end
